theory Spec2Isabelle
  imports Main "HOL-Library.Sublist"
begin

section \<open>JavaScript values\<close>

text \<open>
  The values a record can hold: the primitives and plain data objects. An object is
  the ordered list of its own properties; reading a key finds the first entry with
  that key. Arrays, functions and the inherited members of the built-in prototypes
  are not part of the data model: a key is looked up among the own properties only.
  Numbers are restricted to the integers of magnitude below \<^verbatim>\<open>1e21\<close>, where the
  rendering is the plain decimal one: no modelled operation computes with them,
  they are stored, compared and rendered.
\<close>

datatype jsval =
    JUndefined
  | JNull
  | JBool bool
  | JNum int
  | JStr string
  | JObj "(string \<times> jsval) list"

text \<open>The exceptions the modelled code can raise.\<close>

datatype error = TypeError | ReferenceError

text \<open>The \<^verbatim>\<open>typeof\<close> operator; note that \<^verbatim>\<open>typeof null\<close> is \<^verbatim>\<open>'object'\<close>.\<close>

fun typeof :: "jsval \<Rightarrow> string" where
  "typeof JUndefined = ''undefined''"
| "typeof JNull = ''object''"
| "typeof (JBool b) = ''boolean''"
| "typeof (JNum n) = ''number''"
| "typeof (JStr s) = ''string''"
| "typeof (JObj fs) = ''object''"

text \<open>Truthiness, as tested by \<^verbatim>\<open>if (v)\<close> and \<^verbatim>\<open>v || w\<close>.\<close>

fun truthy :: "jsval \<Rightarrow> bool" where
  "truthy JUndefined = False"
| "truthy JNull = False"
| "truthy (JBool b) = b"
| "truthy (JNum n) = (n \<noteq> 0)"
| "truthy (JStr s) = (s \<noteq> [])"
| "truthy (JObj fs) = True"

text \<open>Decimal rendering of a number, as string concatenation produces it.\<close>

definition digit_char :: "nat \<Rightarrow> char" where
  "digit_char d = char_of (48 + d)"

fun show_nat :: "nat \<Rightarrow> string" where
  "show_nat n = (if n < 10 then [digit_char n] else show_nat (n div 10) @ [digit_char (n mod 10)])"

declare show_nat.simps [simp del]

definition show_int :: "int \<Rightarrow> string" where
  "show_int i = (if i < 0 then CHR ''-'' # show_nat (nat (- i)) else show_nat (nat i))"

text \<open>The conversion to string applied by \<^verbatim>\<open>+\<close> when one operand is a string.\<close>

fun to_string :: "jsval \<Rightarrow> string" where
  "to_string JUndefined = ''undefined''"
| "to_string JNull = ''null''"
| "to_string (JBool b) = (if b then ''true'' else ''false'')"
| "to_string (JNum n) = show_int n"
| "to_string (JStr s) = s"
| "to_string (JObj fs) = ''[object Object]''"

text \<open>
  The property read \<^verbatim>\<open>target[key]\<close>. Reading a property of \<^verbatim>\<open>undefined\<close> or
  \<^verbatim>\<open>null\<close> raises a TypeError. An object yields its own property, or
  \<^verbatim>\<open>undefined\<close> when it has none of that name. A string has its length and its
  characters; the other primitives have no own properties.
\<close>

definition own_property :: "(string \<times> jsval) list \<Rightarrow> string \<Rightarrow> jsval" where
  "own_property fs key = (case map_of fs key of None \<Rightarrow> JUndefined | Some v \<Rightarrow> v)"

definition string_property :: "string \<Rightarrow> string \<Rightarrow> jsval" where
  "string_property s key =
     (if key = ''length'' then JNum (int (length s))
      else case find (\<lambda>i. show_nat i = key) [0..<length s] of
             None \<Rightarrow> JUndefined
           | Some i \<Rightarrow> JStr [s ! i])"

fun getProp :: "jsval \<Rightarrow> string \<Rightarrow> error + jsval" where
  "getProp JUndefined key = Inl TypeError"
| "getProp JNull key = Inl TypeError"
| "getProp (JBool b) key = Inr JUndefined"
| "getProp (JNum n) key = Inr JUndefined"
| "getProp (JStr s) key = Inr (string_property s key)"
| "getProp (JObj fs) key = Inr (own_property fs key)"

section \<open>The document list: \<^verbatim>\<open>getObjectValue\<close>\<close>

text \<open>\<^verbatim>\<open>key.split('.')\<close>: the segments between the dots, never an empty list.\<close>

fun split_dot :: "string \<Rightarrow> string list" where
  "split_dot [] = [[]]"
| "split_dot (c # cs) =
     (if c = CHR ''.'' then [] # split_dot cs
      else case split_dot cs of
             [] \<Rightarrow> [[c]]
           | s # ss \<Rightarrow> (c # s) # ss)"

text \<open>
  The \<^verbatim>\<open>do ... while (keys.length)\<close> loop of \<^verbatim>\<open>getObjectValue\<close>, with its three
  variables: the current \<^verbatim>\<open>target\<close>, the accumulated \<^verbatim>\<open>key\<close> and the remaining
  \<^verbatim>\<open>keys\<close>. The body runs before the test, so it also runs on an empty list, where
  \<^verbatim>\<open>keys.shift()\<close> is \<^verbatim>\<open>undefined\<close> and \<^verbatim>\<open>key += undefined\<close> appends the text
  \<^verbatim>\<open>undefined\<close>.
\<close>

fun getObjectValue_loop :: "jsval \<Rightarrow> string \<Rightarrow> string list \<Rightarrow> error + jsval" where
  "getObjectValue_loop target key [] =
     (case getProp target (key @ ''undefined'') of
        Inl e \<Rightarrow> Inl e
      | Inr v \<Rightarrow> if v \<noteq> JUndefined then Inr v else Inr JUndefined)"
| "getObjectValue_loop target key (k # keys) =
     (case getProp target (key @ k) of
        Inl e \<Rightarrow> Inl e
      | Inr v \<Rightarrow>
          if v \<noteq> JUndefined \<and> (typeof v = ''object'' \<or> keys = []) then
            (if keys = [] then Inr v else getObjectValue_loop v [] keys)
          else if keys = [] then Inr JUndefined
          else getObjectValue_loop target (key @ k @ ''.'') keys)"

definition getObjectValue :: "jsval \<Rightarrow> string \<Rightarrow> error + jsval" where
  "getObjectValue target key = getObjectValue_loop target [] (split_dot key)"

text \<open>
  The value stored at a sequence of segments, read off the record one object at a
  time: every segment but the last names an object, the last names the leaf.
\<close>

fun stored_at :: "jsval \<Rightarrow> string list \<Rightarrow> jsval option" where
  "stored_at v [] = Some v"
| "stored_at (JObj fs) (k # ks) =
     (case map_of fs k of None \<Rightarrow> None | Some v \<Rightarrow> stored_at v ks)"
| "stored_at v (k # ks) = None"

section \<open>The document list: \<^verbatim>\<open>getNodePath\<close>\<close>

text \<open>Sequencing of steps that may raise: the first exception ends the evaluation.\<close>

definition and_then :: "error + 'a \<Rightarrow> ('a \<Rightarrow> error + 'b) \<Rightarrow> error + 'b" where
  "and_then r f = (case r of Inl e \<Rightarrow> Inl e | Inr v \<Rightarrow> f v)"

text \<open>
  Reading an identifier. The method body sees its parameter \<^verbatim>\<open>node\<close>; every other
  name is looked up in the enclosing bindings, here the map \<open>scope\<close>. A name
  with no binding raises a ReferenceError.
\<close>

definition read_identifier :: "(string \<rightharpoonup> jsval) \<Rightarrow> string \<Rightarrow> error + jsval" where
  "read_identifier scope name = (case scope name of None \<Rightarrow> Inl ReferenceError | Some v \<Rightarrow> Inr v)"

text \<open>\<^verbatim>\<open>s.replace(pat, rep)\<close> with a string pattern: the first occurrence is replaced.\<close>

fun replace_first :: "string \<Rightarrow> string \<Rightarrow> string \<Rightarrow> string" where
  "replace_first pat rep [] = (if pat = [] then rep else [])"
| "replace_first pat rep (c # cs) =
     (if prefix pat (c # cs) then rep @ drop (length pat) (c # cs)
      else c # replace_first pat rep cs)"

text \<open>The method call on a value: only a string has \<^verbatim>\<open>replace\<close>.\<close>

fun call_replace :: "jsval \<Rightarrow> string \<Rightarrow> string \<Rightarrow> error + string" where
  "call_replace (JStr s) pat rep = Inr (replace_first pat rep s)"
| "call_replace v pat rep = Inl TypeError"

text \<open>
  \<^verbatim>\<open>getNodePath(node)\<close>. The body tests \<^verbatim>\<open>node\<close> and then reads \<^verbatim>\<open>item\<close>, which
  is neither a parameter nor a local of the method.
\<close>

definition getNodePath :: "(string \<rightharpoonup> jsval) \<Rightarrow> jsval \<Rightarrow> error + jsval" where
  "getNodePath scope node =
     (if truthy node then
        and_then (read_identifier scope ''item'') (\<lambda>item.
        and_then (getProp item ''entry'') (\<lambda>entry.
        and_then (getProp entry ''path'') (\<lambda>path.
        and_then (getProp path ''name'') (\<lambda>pathWithCompanyHome.
        and_then (call_replace pathWithCompanyHome ''/Company Home'' []) (\<lambda>replaced.
        and_then (read_identifier scope ''item'') (\<lambda>item2.
        and_then (getProp item2 ''entry'') (\<lambda>entry2.
        and_then (getProp entry2 ''name'') (\<lambda>name.
          Inr (JStr (replaced @ ''/'' @ to_string name))))))))))
      else Inr JNull)"

section \<open>The deployed-applications service\<close>

text \<open>
  What the error channel of an Observable carries: an exception raised inside an
  operator, or the value a promise was rejected with.
\<close>

datatype reason = Thrown error | Rejected jsval

text \<open>\<^verbatim>\<open>error || 'Server error'\<close>: an exception object is truthy.\<close>

fun or_server_error :: "reason \<Rightarrow> reason" where
  "or_server_error (Thrown e) = Thrown e"
| "or_server_error (Rejected v) = (if truthy v then Rejected v else Rejected (JStr ''Server error''))"

text \<open>
  \<^verbatim>\<open>handleError\<close> writes the error to the log service and returns an Observable
  that fails; the state is the list of logged errors.
\<close>

definition handleError :: "reason \<Rightarrow> reason list \<Rightarrow> reason \<times> reason list" where
  "handleError err logged = (or_server_error err, logged @ [err])"

text \<open>
  \<^verbatim>\<open>apps.filter(app => app.status === status)\<close>. Reading \<^verbatim>\<open>status\<close> from an
  element that is \<^verbatim>\<open>null\<close> or \<^verbatim>\<open>undefined\<close> raises. The right operand of
  \<^verbatim>\<open>===\<close> is a string, so the test holds exactly for that same string.
\<close>

fun filter_by_status :: "string \<Rightarrow> jsval list \<Rightarrow> error + jsval list" where
  "filter_by_status status [] = Inr []"
| "filter_by_status status (app # apps) =
     (case getProp app ''status'' of
        Inl e \<Rightarrow> Inl e
      | Inr v \<Rightarrow>
          (case filter_by_status status apps of
             Inl e \<Rightarrow> Inl e
           | Inr kept \<Rightarrow> Inr (if v = JStr status then app # kept else kept)))"

text \<open>
  \<^verbatim>\<open>getDeployedApplicationsByStatus(status)\<close>. The parameter \<open>response\<close> is what the
  promise of \<^verbatim>\<open>callCustomApi\<close> settles to; \<open>model\<close> is the constructor of
  \<^verbatim>\<open>ApplicationInstanceModel\<close>, a class declared outside these sources. An
  exception inside \<^verbatim>\<open>map\<close> and a rejected promise both reach \<^verbatim>\<open>catchError\<close>.
\<close>

definition getDeployedApplicationsByStatus ::
  "(jsval \<Rightarrow> 'm) \<Rightarrow> reason + jsval list \<Rightarrow> string \<Rightarrow> reason list \<Rightarrow> (reason + 'm list) \<times> reason list" where
  "getDeployedApplicationsByStatus model response status logged =
     (case response of
        Inl err \<Rightarrow> (let (r, logged') = handleError err logged in (Inl r, logged'))
      | Inr apps \<Rightarrow>
          (case filter_by_status status apps of
             Inl e \<Rightarrow> (let (r, logged') = handleError (Thrown e) logged in (Inl r, logged'))
           | Inr kept \<Rightarrow> (Inr (map model kept), logged)))"

section \<open>The filter form builder\<close>

text \<open>
  The component that builds the edit form is not among the sources; only its test
  suite is. The definitions of this section follow the specification of the
  builder (data model, contract of \<^verbatim>\<open>build\<close>, external interfaces, error taxonomy).
\<close>

text \<open>
  Modelled from the spec: the data model of the missing builder. A domain is
  unrestricted or a list of allowed values; a template of the catalog has a label,
  a default value, a domain and an optional dependent lookup, the status to fetch;
  a descriptor is a template with its key.
\<close>

datatype domain = Unrestricted | Allowed "jsval list"

record template =
  label :: string
  defaultValue :: jsval
  domain :: domain
  dependentLookup :: "string option"

record descriptor = template +
  key :: string

text \<open>
  Modelled from the spec: the entries \<^verbatim>\<open>{id, status}\<close> a lookup source returns;
  the class \<^verbatim>\<open>ApplicationInstanceModel\<close> is missing from the sources.
\<close>

record application =
  app_id :: string
  app_status :: string

text \<open>
  Modelled from the spec: the constructor of \<^verbatim>\<open>ApplicationInstanceModel\<close>, missing
  from the sources, keeping the two fields the spec names.
\<close>

definition ApplicationInstanceModel :: "jsval \<Rightarrow> application" where
  "ApplicationInstanceModel app =
     \<lparr>app_id = (case getProp app ''id'' of Inr v \<Rightarrow> to_string v | Inl e \<Rightarrow> []),
      app_status = (case getProp app ''status'' of Inr v \<Rightarrow> to_string v | Inl e \<Rightarrow> [])\<rparr>"

text \<open>
  Modelled from the spec: the built-in default set of the missing component, the
  three canonical keys in their fixed order.
\<close>

definition DEFAULT_PROPERTIES :: "string list" where
  "DEFAULT_PROPERTIES = [''state'', ''sort'', ''order'']"

text \<open>
  Modelled from the spec: the effective requested list of the missing builder; an
  empty request is replaced by the default set.
\<close>

definition effective_properties :: "string list \<Rightarrow> string list" where
  "effective_properties requested = (if requested = [] then DEFAULT_PROPERTIES else requested)"

text \<open>
  Modelled from the spec: the path resolver as the missing builder consumes it, a
  value or Absent. It runs \<^verbatim>\<open>getObjectValue\<close> on the record; \<^verbatim>\<open>undefined\<close> is
  Absent, and a call that raises is an unresolved path, which the spec makes
  non-fatal: it yields Absent too.
\<close>

datatype resolution = Found jsval | Absent

definition resolve :: "(string \<times> jsval) list \<Rightarrow> string \<Rightarrow> resolution" where
  "resolve filterRecord path =
     (case getObjectValue (JObj filterRecord) path of
        Inl e \<Rightarrow> Absent
      | Inr v \<Rightarrow> if v = JUndefined then Absent else Found v)"

text \<open>
  Modelled from the spec: step 2 of the missing builder, the resolved value or
  else the default of the template.
\<close>

definition current_value :: "(string \<times> jsval) list \<Rightarrow> string \<Rightarrow> template \<Rightarrow> jsval" where
  "current_value filterRecord k t =
     (case resolve filterRecord k of Absent \<Rightarrow> defaultValue t | Found v \<Rightarrow> v)"

text \<open>
  Modelled from the spec: step 3 of the missing builder. A template with a
  dependent lookup names the status to fetch; the domain becomes the ids fetched,
  and a failed lookup leaves the empty domain.
\<close>

definition lookup_domain :: "(string \<Rightarrow> reason + application list) \<Rightarrow> template \<Rightarrow> domain" where
  "lookup_domain fetch t =
     (case dependentLookup t of
        None \<Rightarrow> domain t
      | Some status \<Rightarrow>
          (case fetch status of
             Inl err \<Rightarrow> Allowed []
           | Inr apps \<Rightarrow> Allowed (map (\<lambda>a. JStr (app_id a)) apps)))"

text \<open>
  Modelled from the spec: the descriptor the missing builder makes from a template
  of the catalog, for the requested key \<open>k\<close>.
\<close>

definition descriptor_of :: "(string \<Rightarrow> reason + application list) \<Rightarrow> string \<Rightarrow> template \<Rightarrow> descriptor" where
  "descriptor_of fetch k t =
     \<lparr>label = label t, defaultValue = defaultValue t, domain = lookup_domain fetch t,
      dependentLookup = dependentLookup t, key = k\<rparr>"

text \<open>
  Modelled from the spec: what the missing builder does for one requested key. A
  key without a template in the catalog is skipped.
\<close>

definition describe ::
  "(string \<times> jsval) list \<Rightarrow> (string \<rightharpoonup> template) \<Rightarrow> (string \<Rightarrow> reason + application list) \<Rightarrow>
   string \<Rightarrow> (descriptor \<times> jsval) option" where
  "describe filterRecord catalog fetch k =
     (case catalog k of
        None \<Rightarrow> None
      | Some t \<Rightarrow> Some (descriptor_of fetch k t, current_value filterRecord k t))"

text \<open>
  Modelled from the spec: \<^verbatim>\<open>build(record, requested, catalog)\<close> of the missing
  component, with the lookup source as a further argument. It returns the
  descriptors in the order of the request and the form state keyed by the
  descriptors' keys.
\<close>

definition build ::
  "(string \<times> jsval) list \<Rightarrow> string list \<Rightarrow> (string \<rightharpoonup> template) \<Rightarrow>
   (string \<Rightarrow> reason + application list) \<Rightarrow> descriptor list \<times> (string \<rightharpoonup> jsval)" where
  "build filterRecord requested catalog fetch =
     (let entries = List.map_filter (describe filterRecord catalog fetch) (effective_properties requested)
      in (map fst entries, map_of (map (\<lambda>(d, v). (key d, v)) entries)))"

text \<open>
  Modelled from the spec: the lookup source \<^verbatim>\<open>fetch(status)\<close> of the missing
  component, served by \<^verbatim>\<open>getDeployedApplicationsByStatus\<close> from the response the
  deployment service gives for that status.
\<close>

definition service_fetch :: "(string \<Rightarrow> reason + jsval list) \<Rightarrow> string \<Rightarrow> reason + application list" where
  "service_fetch respond status =
     fst (getDeployedApplicationsByStatus ApplicationInstanceModel (respond status) status [])"

section \<open>Example inputs\<close>

text \<open>
  The inputs of the examples of the specification: a catalog with the three default
  properties and their default values and with \<^verbatim>\<open>appName\<close>, whose domain comes from
  the applications that are running; and responses of the deployment service.
\<close>

definition example_catalog :: "string \<rightharpoonup> template" where
  "example_catalog = map_of
     [(''state'', \<lparr>label = ''state'', defaultValue = JStr ''RUNNING'', domain = Unrestricted,
                   dependentLookup = None\<rparr>),
      (''sort'', \<lparr>label = ''sort'', defaultValue = JStr ''id'', domain = Unrestricted,
                  dependentLookup = None\<rparr>),
      (''order'', \<lparr>label = ''order'', defaultValue = JStr ''ASC'', domain = Unrestricted,
                   dependentLookup = None\<rparr>),
      (''appName'', \<lparr>label = ''appName'', defaultValue = JStr [], domain = Unrestricted,
                     dependentLookup = Some ''RUNNING''\<rparr>)]"

definition application_a1 :: jsval where
  "application_a1 = JObj [(''id'', JStr ''a1''), (''status'', JStr ''RUNNING'')]"

definition application_a2 :: jsval where
  "application_a2 = JObj [(''id'', JStr ''a2''), (''status'', JStr ''PENDING'')]"

definition respond_unauthorized :: "string \<Rightarrow> reason + jsval list" where
  "respond_unauthorized status = Inl (Rejected (JStr ''401''))"

definition respond_running_only :: "string \<Rightarrow> reason + jsval list" where
  "respond_running_only status =
     (if status = ''RUNNING'' then Inr [application_a1] else Inl (Rejected (JStr ''401'')))"

definition fetch_nothing :: "string \<Rightarrow> reason + application list" where
  "fetch_nothing status = Inr []"

section \<open>Resolving a path that is present\<close>

lemma split_dot_not_Nil: "split_dot s \<noteq> []"
  by (induction s) (auto split: list.splits)

lemma getObjectValue_loop_stored:
  "ks \<noteq> [] \<Longrightarrow> stored_at (JObj fs) ks = Some leaf \<Longrightarrow>
   getObjectValue_loop (JObj fs) [] ks = Inr leaf"
proof (induction ks arbitrary: fs)
  case Nil
  then show ?case by simp
next
  case (Cons k ks)
  from Cons.prems obtain v where v: "map_of fs k = Some v" and rest: "stored_at v ks = Some leaf"
    by (auto split: option.splits)
  show ?case
  proof (cases ks)
    case Nil
    with v rest show ?thesis by (simp add: own_property_def)
  next
    case (Cons k' ks')
    with rest obtain gs where gs: "v = JObj gs"
      by (cases v) auto
    from Cons.IH [of gs] rest gs Cons
    have "getObjectValue_loop (JObj gs) [] ks = Inr leaf" by simp
    with v gs Cons show ?thesis by (simp add: own_property_def)
  qed
qed

text \<open>
  C1: when every segment of the dotted path is present in the record, each
  intermediate value being an object, \<^verbatim>\<open>getObjectValue\<close> returns exactly the value
  stored at the end of the path.
\<close>

theorem getObjectValue_present_path:
  "stored_at (JObj fs) (split_dot path) = Some leaf \<Longrightarrow>
   getObjectValue (JObj fs) path = Inr leaf"
  unfolding getObjectValue_def
  by (rule getObjectValue_loop_stored [OF split_dot_not_Nil])

text \<open>The example of the method's own documentation.\<close>

theorem getObjectValue_present_path_witness:
  "stored_at (JObj [(''item'', JObj [(''nodeType'', JStr ''cm:folder'')])]) (split_dot ''item.nodeType'')
     = Some (JStr ''cm:folder'') \<and>
   getObjectValue (JObj [(''item'', JObj [(''nodeType'', JStr ''cm:folder'')])]) ''item.nodeType''
     = Inr (JStr ''cm:folder'')"
proof -
  have h: "stored_at (JObj [(''item'', JObj [(''nodeType'', JStr ''cm:folder'')])]) (split_dot ''item.nodeType'')
     = Some (JStr ''cm:folder'')"
    by simp
  from getObjectValue_present_path [OF h] h show ?thesis by simp
qed

section \<open>Paths that raise\<close>

text \<open>
  C2: \<^verbatim>\<open>getObjectValue\<close> is claimed never to raise. The guard of the loop lets a
  value through when \<^verbatim>\<open>typeof\<close> says \<^verbatim>\<open>'object'\<close>, which it says of \<^verbatim>\<open>null\<close>
  too; the next round then reads a property of \<^verbatim>\<open>null\<close>. On the record
  \<^verbatim>\<open>{a: null}\<close> and the path \<^verbatim>\<open>a.b\<close> the call raises a TypeError.
\<close>

theorem getObjectValue_null_intermediate_raises:
  "getObjectValue (JObj [(''a'', JNull)]) ''a.b'' = Inl TypeError"
  by (simp add: getObjectValue_def own_property_def)

section \<open>The empty path\<close>

text \<open>
  C3, as claimed: the empty path returns the record itself. It does not: the empty
  path splits into one empty segment, and the loop body runs once. On the empty
  record the result is \<^verbatim>\<open>undefined\<close>.
\<close>

theorem getObjectValue_empty_path_counterexample:
  "getObjectValue (JObj []) [] = Inr JUndefined \<and> getObjectValue (JObj []) [] \<noteq> Inr (JObj [])"
  by (simp add: getObjectValue_def own_property_def)

text \<open>
  C3, amended: for every record, resolving the empty path reads the property whose
  name is the empty string: the result is the value stored under that name, and
  \<^verbatim>\<open>undefined\<close> when the record has no such property.
\<close>

theorem getObjectValue_empty_path:
  "getObjectValue (JObj fs) [] = Inr (case map_of fs [] of None \<Rightarrow> JUndefined | Some v \<Rightarrow> v)"
  by (simp add: getObjectValue_def own_property_def)

theorem getObjectValue_empty_path_witness:
  "getObjectValue (JObj [(''name'', JStr ''x''), ([], JNum 7)]) [] = Inr (JNum 7)"
  using getObjectValue_empty_path [of "[(''name'', JStr ''x''), ([], JNum 7)]"]
  by simp

section \<open>Compound keys\<close>



section \<open>The path of a node\<close>

text \<open>
  C9: for every node that passes the test \<^verbatim>\<open>if (node)\<close>, \<^verbatim>\<open>getNodePath\<close> reads the
  identifier \<^verbatim>\<open>item\<close> and not its parameter. Where \<^verbatim>\<open>item\<close> has no binding the call
  raises a ReferenceError, and whatever the bindings are, the result is the same
  for every such node: nothing of it comes from the node's own fields.
\<close>

theorem getNodePath_ignores_node:
  "truthy node \<Longrightarrow>
   (scope ''item'' = None \<longrightarrow> getNodePath scope node = Inl ReferenceError) \<and>
   (\<forall>node'. truthy node' \<longrightarrow> getNodePath scope node' = getNodePath scope node)"
  by (simp add: getNodePath_def read_identifier_def and_then_def)

theorem getNodePath_ignores_node_witness:
  "truthy (JObj [(''entry'', JObj [(''name'', JStr ''docs''), (''isFolder'', JBool True)])]) \<and>
   (map_of [] :: string \<rightharpoonup> jsval) ''item'' = None \<and>
   getNodePath (map_of []) (JObj [(''entry'', JObj [(''name'', JStr ''docs''), (''isFolder'', JBool True)])])
     = Inl ReferenceError \<and>
   truthy (JObj []) \<and>
   getNodePath (map_of []) (JObj [])
     = getNodePath (map_of []) (JObj [(''entry'', JObj [(''name'', JStr ''docs''), (''isFolder'', JBool True)])])"
proof -
  have h: "truthy (JObj [(''entry'', JObj [(''name'', JStr ''docs''), (''isFolder'', JBool True)])])"
    by simp
  have e: "(map_of [] :: string \<rightharpoonup> jsval) ''item'' = None"
    by simp
  have t: "truthy (JObj [])"
    by simp
  note both = getNodePath_ignores_node [OF h, of "map_of []"]
  have a: "getNodePath (map_of []) (JObj [(''entry'', JObj [(''name'', JStr ''docs''), (''isFolder'', JBool True)])])
     = Inl ReferenceError"
    by (rule both [THEN conjunct1, THEN mp, OF e])
  have b: "getNodePath (map_of []) (JObj [])
     = getNodePath (map_of []) (JObj [(''entry'', JObj [(''name'', JStr ''docs''), (''isFolder'', JBool True)])])"
    by (rule both [THEN conjunct2, THEN spec, THEN mp, OF t])
  show ?thesis
    by (intro conjI; fact)
qed

section \<open>Deployed applications by status\<close>

lemma filter_by_status_filter:
  "\<forall>a \<in> set apps. a \<noteq> JUndefined \<and> a \<noteq> JNull \<Longrightarrow>
   filter_by_status status apps = Inr (filter (\<lambda>a. getProp a ''status'' = Inr (JStr status)) apps)"
proof (induction apps)
  case Nil
  then show ?case by simp
next
  case (Cons a apps)
  then have "a \<noteq> JUndefined" and "a \<noteq> JNull"
    by auto
  then obtain v where "getProp a ''status'' = Inr v"
    by (cases a) auto
  with Cons show ?case by simp
qed

text \<open>
  C8: for every status and every sequence of applications the deployment service
  returns (values of the declared element type, which excludes \<^verbatim>\<open>null\<close> and
  \<^verbatim>\<open>undefined\<close>), \<^verbatim>\<open>getDeployedApplicationsByStatus\<close> yields exactly the
  applications whose \<^verbatim>\<open>status\<close> is the given string, each wrapped by the model
  constructor, in the order they were returned; nothing is logged.
\<close>

theorem getDeployedApplicationsByStatus_filters:
  "\<forall>a \<in> set apps. a \<noteq> JUndefined \<and> a \<noteq> JNull \<Longrightarrow>
   getDeployedApplicationsByStatus model (Inr apps) status logged =
     (Inr (map model (filter (\<lambda>a. getProp a ''status'' = Inr (JStr status)) apps)), logged)"
  by (simp add: getDeployedApplicationsByStatus_def filter_by_status_filter)

theorem getDeployedApplicationsByStatus_filters_witness:
  "getDeployedApplicationsByStatus ApplicationInstanceModel
     (Inr [application_a2, application_a1, JObj [(''id'', JStr ''a3'')], application_a1]) ''RUNNING'' [] =
     (Inr [\<lparr>app_id = ''a1'', app_status = ''RUNNING''\<rparr>, \<lparr>app_id = ''a1'', app_status = ''RUNNING''\<rparr>], [])"
proof -
  have h: "\<forall>a \<in> set [application_a2, application_a1, JObj [(''id'', JStr ''a3'')], application_a1].
      a \<noteq> JUndefined \<and> a \<noteq> JNull"
    by (simp add: application_a1_def application_a2_def)
  from getDeployedApplicationsByStatus_filters [OF h, of ApplicationInstanceModel "''RUNNING''" "[]"]
  show ?thesis
    by (simp add: application_a1_def application_a2_def own_property_def ApplicationInstanceModel_def)
qed

section \<open>The form builder\<close>

lemma build_descriptors:
  "fst (build r q c f) =
   List.map_filter (\<lambda>k. map_option (descriptor_of f k) (c k)) (effective_properties q)"
proof -
  have "map fst (List.map_filter (describe r c f) ks) =
        List.map_filter (\<lambda>k. map_option (descriptor_of f k) (c k)) ks" for ks
    by (induction ks) (auto simp: map_filter_simps describe_def split: option.splits)
  then show ?thesis by (simp add: build_def Let_def)
qed

lemma build_form_state:
  "snd (build r q c f) =
   map_of (List.map_filter (\<lambda>k. map_option (\<lambda>t. (k, current_value r k t)) (c k)) (effective_properties q))"
proof -
  have "map (\<lambda>(d, v). (key d, v)) (List.map_filter (describe r c f) ks) =
        List.map_filter (\<lambda>k. map_option (\<lambda>t. (k, current_value r k t)) (c k)) ks" for ks
    by (induction ks) (auto simp: map_filter_simps describe_def descriptor_of_def split: option.splits)
  then show ?thesis by (simp add: build_def Let_def)
qed

lemma descriptor_keys:
  "map key (List.map_filter (\<lambda>k. map_option (descriptor_of f k) (c k)) ks) = filter (\<lambda>k. c k \<noteq> None) ks"
  by (induction ks) (auto simp: map_filter_simps descriptor_of_def split: option.splits)

lemma form_state_dom:
  "dom (map_of (List.map_filter (\<lambda>k. map_option (\<lambda>t. (k, g k t)) (c k)) ks)) = set ks \<inter> dom c"
proof -
  have "fst ` set (List.map_filter (\<lambda>k. map_option (\<lambda>t. (k, g k t)) (c k)) ks) = set ks \<inter> dom c"
    by (force simp: map_filter_def image_iff)
  then show ?thesis by (simp add: dom_map_of_conv_image_fst)
qed

lemma dependentLookup_descriptor_of: "dependentLookup (descriptor_of f k t) = dependentLookup t"
  by (simp add: descriptor_of_def)

subsection \<open>The default properties\<close>

text \<open>
  C4, as claimed: for every record and catalog an empty request yields the three
  default properties, and the form state holds their default values. A catalog
  without templates for them yields no descriptor at all, and a value the record
  holds takes the place of the default.
\<close>

theorem build_default_properties_counterexample:
  "length (fst (build [] [] (map_of []) fetch_nothing)) \<noteq> 3 \<and>
   snd (build [(''state'', JStr ''COMPLETED'')] [] example_catalog fetch_nothing) ''state''
     = Some (JStr ''COMPLETED'')"
  by (simp add: build_descriptors build_form_state effective_properties_def DEFAULT_PROPERTIES_def
      map_filter_simps example_catalog_def current_value_def resolve_def getObjectValue_def
      own_property_def)

text \<open>
  C4, amended: for every record and every catalog that has a template for each of
  \<^verbatim>\<open>state\<close>, \<^verbatim>\<open>sort\<close> and \<^verbatim>\<open>order\<close>, an empty request yields exactly the three
  descriptors with these keys, in this order, so the form is not empty, and the
  form state maps each key to its resolved-or-default value; when the record
  resolves none of the three and the defaults are \<^verbatim>\<open>RUNNING\<close>, \<^verbatim>\<open>id\<close> and \<^verbatim>\<open>ASC\<close>,
  the form state is exactly \<^verbatim>\<open>{state: 'RUNNING', sort: 'id', order: 'ASC'}\<close>.
\<close>

theorem build_default_properties:
  assumes "catalog ''state'' = Some t1" and "catalog ''sort'' = Some t2" and "catalog ''order'' = Some t3"
  shows "map key (fst (build r [] catalog fetch)) = [''state'', ''sort'', ''order''] \<and>
     fst (build r [] catalog fetch) \<noteq> [] \<and>
     snd (build r [] catalog fetch) =
       map_of [(''state'', current_value r ''state'' t1), (''sort'', current_value r ''sort'' t2),
               (''order'', current_value r ''order'' t3)] \<and>
     (resolve r ''state'' = Absent \<and> resolve r ''sort'' = Absent \<and> resolve r ''order'' = Absent \<and>
      defaultValue t1 = JStr ''RUNNING'' \<and> defaultValue t2 = JStr ''id'' \<and> defaultValue t3 = JStr ''ASC'' \<longrightarrow>
      snd (build r [] catalog fetch) =
        map_of [(''state'', JStr ''RUNNING''), (''sort'', JStr ''id''), (''order'', JStr ''ASC'')])"
proof -
  have k: "map key (fst (build r [] catalog fetch)) = [''state'', ''sort'', ''order'']"
    unfolding build_descriptors descriptor_keys
    using assms by (simp add: effective_properties_def DEFAULT_PROPERTIES_def)
  then have ne: "fst (build r [] catalog fetch) \<noteq> []"
    by auto
  have fs: "snd (build r [] catalog fetch) =
       map_of [(''state'', current_value r ''state'' t1), (''sort'', current_value r ''sort'' t2),
               (''order'', current_value r ''order'' t3)]"
    using assms
    by (simp add: build_form_state effective_properties_def DEFAULT_PROPERTIES_def map_filter_simps)
  show ?thesis
    using k ne fs by (simp add: current_value_def)
qed

text \<open>The second example of the specification: the empty record and the default catalog.\<close>

theorem build_default_properties_witness:
  "example_catalog ''state'' = Some \<lparr>label = ''state'', defaultValue = JStr ''RUNNING'',
      domain = Unrestricted, dependentLookup = None\<rparr> \<and>
   example_catalog ''sort'' = Some \<lparr>label = ''sort'', defaultValue = JStr ''id'',
      domain = Unrestricted, dependentLookup = None\<rparr> \<and>
   example_catalog ''order'' = Some \<lparr>label = ''order'', defaultValue = JStr ''ASC'',
      domain = Unrestricted, dependentLookup = None\<rparr> \<and>
   resolve [] ''state'' = Absent \<and> resolve [] ''sort'' = Absent \<and> resolve [] ''order'' = Absent \<and>
   map key (fst (build [] [] example_catalog fetch_nothing)) = [''state'', ''sort'', ''order''] \<and>
   snd (build [] [] example_catalog fetch_nothing) =
     map_of [(''state'', JStr ''RUNNING''), (''sort'', JStr ''id''), (''order'', JStr ''ASC'')]"
proof -
  have c1: "example_catalog ''state'' = Some \<lparr>label = ''state'', defaultValue = JStr ''RUNNING'',
      domain = Unrestricted, dependentLookup = None\<rparr>"
    by (simp add: example_catalog_def)
  have c2: "example_catalog ''sort'' = Some \<lparr>label = ''sort'', defaultValue = JStr ''id'',
      domain = Unrestricted, dependentLookup = None\<rparr>"
    by (simp add: example_catalog_def)
  have c3: "example_catalog ''order'' = Some \<lparr>label = ''order'', defaultValue = JStr ''ASC'',
      domain = Unrestricted, dependentLookup = None\<rparr>"
    by (simp add: example_catalog_def)
  have a1: "resolve [] ''state'' = Absent"
    by (simp add: resolve_def getObjectValue_def own_property_def)
  have a2: "resolve [] ''sort'' = Absent"
    by (simp add: resolve_def getObjectValue_def own_property_def)
  have a3: "resolve [] ''order'' = Absent"
    by (simp add: resolve_def getObjectValue_def own_property_def)
  note all = build_default_properties [OF c1 c2 c3, of "[]" fetch_nothing]
  have k: "map key (fst (build [] [] example_catalog fetch_nothing)) = [''state'', ''sort'', ''order'']"
    by (rule all [THEN conjunct1])
  have "snd (build [] [] example_catalog fetch_nothing) =
     map_of [(''state'', JStr ''RUNNING''), (''sort'', JStr ''id''), (''order'', JStr ''ASC'')]"
    by (rule all [THEN conjunct2, THEN conjunct2, THEN conjunct2, THEN mp]) (simp add: a1 a2 a3)
  with c1 c2 c3 a1 a2 a3 k show ?thesis
    by (intro conjI)
qed

subsection \<open>Keys the catalog does not know\<close>

text \<open>
  C6: when the request contains at least one key the catalog has no template for,
  \<^verbatim>\<open>build\<close> skips the unknown keys: the keys of the descriptors are exactly the
  requested keys found in the catalog, in the order of the request, the descriptor
  list is strictly shorter than the request, and the form state is defined on
  exactly the known requested keys.
\<close>

theorem build_skips_unknown_keys:
  assumes "\<exists>k \<in> set requested. catalog k = None"
  shows "map key (fst (build r requested catalog fetch)) = filter (\<lambda>k. catalog k \<noteq> None) requested \<and>
     length (fst (build r requested catalog fetch)) < length requested \<and>
     dom (snd (build r requested catalog fetch)) = set requested \<inter> dom catalog"
proof -
  from assms have "requested \<noteq> []"
    by auto
  then have eff: "effective_properties requested = requested"
    by (simp add: effective_properties_def)
  have k: "map key (fst (build r requested catalog fetch)) = filter (\<lambda>k. catalog k \<noteq> None) requested"
    by (simp add: build_descriptors descriptor_keys eff)
  from assms obtain u where "u \<in> set requested" and "\<not> catalog u \<noteq> None"
    by auto
  then have "length (filter (\<lambda>k. catalog k \<noteq> None) requested) < length requested"
    by (rule length_filter_less)
  with k have l: "length (fst (build r requested catalog fetch)) < length requested"
    by (metis length_map)
  have d: "dom (snd (build r requested catalog fetch)) = set requested \<inter> dom catalog"
    by (simp add: build_form_state eff form_state_dom)
  from k l d show ?thesis
    by simp
qed

theorem build_skips_unknown_keys_witness:
  "example_catalog ''priority'' = None \<and>
   map key (fst (build [] [''order'', ''priority'', ''state''] example_catalog fetch_nothing))
     = [''order'', ''state''] \<and>
   length (fst (build [] [''order'', ''priority'', ''state''] example_catalog fetch_nothing)) < 3"
proof -
  have h: "\<exists>k \<in> set [''order'', ''priority'', ''state'']. example_catalog k = None"
    by (simp add: example_catalog_def)
  note all = build_skips_unknown_keys [OF h, of "[]" fetch_nothing]
  have "filter (\<lambda>k. example_catalog k \<noteq> None) [''order'', ''priority'', ''state''] = [''order'', ''state'']"
    by (simp add: example_catalog_def)
  with all have k: "map key (fst (build [] [''order'', ''priority'', ''state''] example_catalog fetch_nothing))
     = [''order'', ''state'']"
    by simp
  from all have l: "length (fst (build [] [''order'', ''priority'', ''state''] example_catalog fetch_nothing)) < 3"
    by simp
  have u: "example_catalog ''priority'' = None"
    by (simp add: example_catalog_def)
  from u k l show ?thesis
    by (intro conjI)
qed

subsection \<open>A lookup that fails\<close>

lemma lookup_domain_failed:
  assumes "fetch s = Inl err" and "fetch' s = Inl err'" and "\<forall>s'. s' \<noteq> s \<longrightarrow> fetch' s' = fetch s'"
  shows "lookup_domain fetch t = lookup_domain fetch' t"
proof (cases "dependentLookup t")
  case None
  then show ?thesis by (simp add: lookup_domain_def)
next
  case (Some x)
  show ?thesis
  proof (cases "x = s")
    case True
    with Some assms show ?thesis by (simp add: lookup_domain_def)
  next
    case False
    with Some assms show ?thesis by (simp add: lookup_domain_def)
  qed
qed

lemma descriptor_of_other_lookup:
  assumes "\<forall>s'. s' \<noteq> s \<longrightarrow> fetch' s' = fetch s'" and "dependentLookup t \<noteq> Some s"
  shows "descriptor_of fetch k t = descriptor_of fetch' k t"
  using assms by (auto simp: descriptor_of_def lookup_domain_def split: option.splits)

lemma other_descriptors:
  assumes "\<forall>s'. s' \<noteq> s \<longrightarrow> fetch' s' = fetch s'"
  shows "filter (\<lambda>d. dependentLookup d \<noteq> Some s)
           (List.map_filter (\<lambda>k. map_option (descriptor_of fetch k) (c k)) ks) =
         filter (\<lambda>d. dependentLookup d \<noteq> Some s)
           (List.map_filter (\<lambda>k. map_option (descriptor_of fetch' k) (c k)) ks)"
proof (induction ks)
  case Nil
  then show ?case by (simp add: map_filter_simps)
next
  case (Cons k ks)
  show ?case
  proof (cases "c k")
    case None
    with Cons show ?thesis by (simp add: map_filter_simps)
  next
    case (Some t)
    with Cons descriptor_of_other_lookup [OF assms, of t k] show ?thesis
      by (simp add: map_filter_simps dependentLookup_descriptor_of)
  qed
qed

text \<open>
  C7: when the lookup for one status fails, the build still completes with a
  descriptor for every known requested key. The descriptors that depend on the
  failed lookup get the empty domain; every other descriptor and the whole form
  state are what they are with a lookup source that differs only at that status,
  for instance one where the lookup succeeds; and the result carries nothing of
  the error: any other failure of the same lookup gives the same result.
\<close>

theorem build_isolates_failed_lookup:
  assumes "fetch s = Inl err" and "\<forall>s'. s' \<noteq> s \<longrightarrow> fetch' s' = fetch s'"
  shows "(\<forall>d \<in> set (fst (build r q c fetch)). dependentLookup d = Some s \<longrightarrow> domain d = Allowed []) \<and>
     map key (fst (build r q c fetch)) = filter (\<lambda>k. c k \<noteq> None) (effective_properties q) \<and>
     filter (\<lambda>d. dependentLookup d \<noteq> Some s) (fst (build r q c fetch)) =
       filter (\<lambda>d. dependentLookup d \<noteq> Some s) (fst (build r q c fetch')) \<and>
     snd (build r q c fetch) = snd (build r q c fetch') \<and>
     (\<forall>err'. fetch' s = Inl err' \<longrightarrow> build r q c fetch = build r q c fetch')"
proof -
  have 1: "\<forall>d \<in> set (fst (build r q c fetch)). dependentLookup d = Some s \<longrightarrow> domain d = Allowed []"
    using assms(1) by (auto simp: build_descriptors map_filter_def descriptor_of_def lookup_domain_def)
  have 2: "map key (fst (build r q c fetch)) = filter (\<lambda>k. c k \<noteq> None) (effective_properties q)"
    by (simp add: build_descriptors descriptor_keys)
  have 3: "filter (\<lambda>d. dependentLookup d \<noteq> Some s) (fst (build r q c fetch)) =
       filter (\<lambda>d. dependentLookup d \<noteq> Some s) (fst (build r q c fetch'))"
    unfolding build_descriptors by (rule other_descriptors [OF assms(2)])
  have 4: "snd (build r q c fetch) = snd (build r q c fetch')"
    by (simp add: build_form_state)
  have 5: "build r q c fetch = build r q c fetch'" if "fetch' s = Inl err'" for err'
  proof -
    have "descriptor_of fetch = descriptor_of fetch'"
      by (intro ext) (simp add: descriptor_of_def lookup_domain_failed [OF assms(1) that assms(2)])
    then have "fst (build r q c fetch) = fst (build r q c fetch')"
      by (simp add: build_descriptors)
    with 4 show ?thesis
      by (simp add: prod_eq_iff)
  qed
  from 1 2 3 4 5 show ?thesis
    by blast
qed

text \<open>
  The deployment service rejects every call with \<^verbatim>\<open>401\<close>; the service logs and
  rethrows, and the build goes on with the empty domain for \<^verbatim>\<open>appName\<close>. The
  other source answers the lookup of \<^verbatim>\<open>RUNNING\<close>.
\<close>

theorem build_isolates_failed_lookup_witness:
  "service_fetch respond_unauthorized ''RUNNING'' = Inl (Rejected (JStr ''401'')) \<and>
   map domain (fst (build [(''appName'', JStr ''mock-app-name'')] [''appName'', ''state''] example_catalog
                      (service_fetch respond_unauthorized))) = [Allowed [], Unrestricted] \<and>
   map domain (fst (build [(''appName'', JStr ''mock-app-name'')] [''appName'', ''state''] example_catalog
                      (service_fetch respond_running_only))) = [Allowed [JStr ''a1''], Unrestricted] \<and>
   map key (fst (build [(''appName'', JStr ''mock-app-name'')] [''appName'', ''state''] example_catalog
                   (service_fetch respond_unauthorized))) = [''appName'', ''state''] \<and>
   filter (\<lambda>d. dependentLookup d \<noteq> Some ''RUNNING'')
     (fst (build [(''appName'', JStr ''mock-app-name'')] [''appName'', ''state''] example_catalog
             (service_fetch respond_unauthorized))) =
   filter (\<lambda>d. dependentLookup d \<noteq> Some ''RUNNING'')
     (fst (build [(''appName'', JStr ''mock-app-name'')] [''appName'', ''state''] example_catalog
             (service_fetch respond_running_only))) \<and>
   snd (build [(''appName'', JStr ''mock-app-name'')] [''appName'', ''state''] example_catalog
          (service_fetch respond_unauthorized)) =
   snd (build [(''appName'', JStr ''mock-app-name'')] [''appName'', ''state''] example_catalog
          (service_fetch respond_running_only))"
proof -
  have h1: "service_fetch respond_unauthorized ''RUNNING'' = Inl (Rejected (JStr ''401''))"
    by (simp add: service_fetch_def getDeployedApplicationsByStatus_def respond_unauthorized_def
        handleError_def)
  have h2: "\<forall>s'. s' \<noteq> ''RUNNING'' \<longrightarrow>
      service_fetch respond_running_only s' = service_fetch respond_unauthorized s'"
    by (simp add: service_fetch_def respond_running_only_def respond_unauthorized_def)
  note all = build_isolates_failed_lookup [OF h1 h2,
      of "[(''appName'', JStr ''mock-app-name'')]" "[''appName'', ''state'']" example_catalog]
  have e: "filter (\<lambda>k. example_catalog k \<noteq> None) (effective_properties [''appName'', ''state''])
      = [''appName'', ''state'']"
    by (simp add: effective_properties_def example_catalog_def)
  have c2: "map key (fst (build [(''appName'', JStr ''mock-app-name'')] [''appName'', ''state''] example_catalog
                   (service_fetch respond_unauthorized))) = [''appName'', ''state'']"
    using all [THEN conjunct2, THEN conjunct1] e by simp
  have c3: "filter (\<lambda>d. dependentLookup d \<noteq> Some ''RUNNING'')
     (fst (build [(''appName'', JStr ''mock-app-name'')] [''appName'', ''state''] example_catalog
             (service_fetch respond_unauthorized))) =
   filter (\<lambda>d. dependentLookup d \<noteq> Some ''RUNNING'')
     (fst (build [(''appName'', JStr ''mock-app-name'')] [''appName'', ''state''] example_catalog
             (service_fetch respond_running_only)))"
    by (rule all [THEN conjunct2, THEN conjunct2, THEN conjunct1])
  have c4: "snd (build [(''appName'', JStr ''mock-app-name'')] [''appName'', ''state''] example_catalog
          (service_fetch respond_unauthorized)) =
   snd (build [(''appName'', JStr ''mock-app-name'')] [''appName'', ''state''] example_catalog
          (service_fetch respond_running_only))"
    by (rule all [THEN conjunct2, THEN conjunct2, THEN conjunct2, THEN conjunct1])
  have ok: "service_fetch respond_running_only ''RUNNING'' = Inr [\<lparr>app_id = ''a1'', app_status = ''RUNNING''\<rparr>]"
    by (simp add: service_fetch_def getDeployedApplicationsByStatus_def respond_running_only_def
        application_a1_def own_property_def ApplicationInstanceModel_def)
  have d1: "map domain (fst (build [(''appName'', JStr ''mock-app-name'')] [''appName'', ''state''] example_catalog
                      (service_fetch respond_unauthorized))) = [Allowed [], Unrestricted]"
    by (simp add: build_descriptors effective_properties_def example_catalog_def map_filter_simps
        descriptor_of_def lookup_domain_def h1)
  have d2: "map domain (fst (build [(''appName'', JStr ''mock-app-name'')] [''appName'', ''state''] example_catalog
                      (service_fetch respond_running_only))) = [Allowed [JStr ''a1''], Unrestricted]"
    by (simp add: build_descriptors effective_properties_def example_catalog_def map_filter_simps
        descriptor_of_def lookup_domain_def ok)
  from h1 d1 d2 c2 c3 c4 show ?thesis
    by (intro conjI)
qed

end
